theory Spec2Isabelle
  imports Complex_Main "HOL-Library.Log_Nat"
begin

section \<open>Python values and exceptions\<close>

text \<open>
  The values that travel through the inspection engine: a sensor reading is declared
  \<^verbatim>\<open>Optional[Union[float, bool, str]]\<close> in the hardware layer, a mechanical test
  returns a \<^verbatim>\<open>bool\<close>, a visual check stores a fixed string and an item that could
  not be checked stores \<^verbatim>\<open>None\<close>. Numbers are modelled as reals: Python compares
  ints and floats by their mathematical value. Float arithmetic rounds its exact
  result, see \<open>float_round\<close> below.
\<close>

datatype pyval = PyNone | PyBool bool | PyNum real | PyStr string

text \<open>
  The exceptions of the engine. \<open>KeyError k\<close> is a subscript \<^verbatim>\<open>d[k]\<close> on a dict
  without the key \<open>k\<close>; \<open>TypeError op t\<close> is an ordering comparison \<open>op\<close> whose left
  operand, of Python type \<open>t\<close>, cannot be compared with a number; \<open>Failure msg\<close>
  is any other \<^verbatim>\<open>Exception\<close> raised by the hardware collaborator, with
  \<^verbatim>\<open>str(e) = msg\<close>. What is not an \<^verbatim>\<open>Exception\<close> (\<^verbatim>\<open>KeyboardInterrupt\<close>,
  \<^verbatim>\<open>SystemExit\<close>) is a signal to the interpreter, not a failure of the collaborator,
  and is outside the model.
\<close>

datatype exn = KeyError string | TypeError string string | ZeroDivisionError | Failure string

text \<open>
  \<^verbatim>\<open>str(e)\<close>. For a \<^verbatim>\<open>KeyError\<close> it is the \<^verbatim>\<open>repr\<close> of the key, in single quotes.
  The message of a \<^verbatim>\<open>TypeError\<close> ends with the type name of the right operand
  (\<^verbatim>\<open>int\<close> or \<^verbatim>\<open>float\<close>), which the model does not track.
\<close>

fun str_exn :: "exn \<Rightarrow> string" where
  "str_exn (KeyError k) = [CHR 0x27] @ k @ [CHR 0x27]"
| "str_exn (TypeError opr t) =
     [CHR 0x27] @ opr @ [CHR 0x27] @ '' not supported between instances of ''
       @ [CHR 0x27] @ t @ [CHR 0x27] @ '' and a number''"
| "str_exn ZeroDivisionError = ''division by zero''"
| "str_exn (Failure msg) = msg"

text \<open>Sequencing of computations that may raise: the first exception wins.\<close>

definition and_then :: "exn + 'a \<Rightarrow> ('a \<Rightarrow> exn + 'b) \<Rightarrow> exn + 'b" where
  "and_then m f = (case m of Inl e \<Rightarrow> Inl e | Inr x \<Rightarrow> f x)"

text \<open>Truth value of an object, as \<^verbatim>\<open>"pass" if value else "fail"\<close> tests it.\<close>

fun truthy :: "pyval \<Rightarrow> bool" where
  "truthy PyNone = False"
| "truthy (PyBool b) = b"
| "truthy (PyNum x) = (x \<noteq> 0)"
| "truthy (PyStr s) = (s \<noteq> [])"

text \<open>
  \<^verbatim>\<open>value < bound\<close> and \<^verbatim>\<open>value > bound\<close> against a numeric bound. A bool compares
  as 0 or 1; \<^verbatim>\<open>None\<close> and strings raise \<^verbatim>\<open>TypeError\<close>.
\<close>

fun py_lt :: "pyval \<Rightarrow> real \<Rightarrow> exn + bool" where
  "py_lt (PyNum x) b = Inr (x < b)"
| "py_lt (PyBool t) b = Inr ((if t then 1 else 0) < b)"
| "py_lt PyNone b = Inl (TypeError ''<'' ''NoneType'')"
| "py_lt (PyStr s) b = Inl (TypeError ''<'' ''str'')"

fun py_gt :: "pyval \<Rightarrow> real \<Rightarrow> exn + bool" where
  "py_gt (PyNum x) b = Inr (x > b)"
| "py_gt (PyBool t) b = Inr ((if t then 1 else 0) > b)"
| "py_gt PyNone b = Inl (TypeError ''>'' ''NoneType'')"
| "py_gt (PyStr s) b = Inl (TypeError ''>'' ''str'')"

text \<open>
  Python floats are IEEE 754 binary64 numbers, and each float operation returns the
  exact result rounded to the nearest float, ties to the even significand.
  \<open>round_half_even\<close> rounds a real to the nearest integer, ties to even.
\<close>

definition round_half_even :: "real \<Rightarrow> int" where
  "round_half_even y =
     (let f = \<lfloor>y\<rfloor> in
      if y - of_int f < 1 / 2 then f
      else if 1 / 2 < y - of_int f then f + 1
      else if even f then f else f + 1)"

text \<open>
  For \<open>x > 0\<close>, the exponent \<open>e\<close> with \<open>2 powi e \<le> x < 2 powi (e + 1)\<close>, from the bit
  length of \<open>\<lfloor>x\<rfloor>\<close> when \<open>x \<ge> 1\<close> and of \<open>\<lceil>1 / x\<rceil> - 1\<close> otherwise.
\<close>

definition binade :: "real \<Rightarrow> int" where
  "binade x =
     (if 1 \<le> x then int (floorlog 2 (nat \<lfloor>x\<rfloor>)) - 1
      else - int (floorlog 2 (nat (\<lceil>1 / x\<rceil> - 1))))"

text \<open>
  The spacing of the floats around \<open>x > 0\<close>: 53 significant bits, and the fixed
  spacing \<open>2 powi (- 1074)\<close> of the subnormal numbers below \<open>2 powi (- 1022)\<close>.
\<close>

definition ulp :: "real \<Rightarrow> real" where
  "ulp x = 2 powi (max (binade x) (- 1022) - 52)"

text \<open>
  The float nearest to a real. Overflow to infinity (from \<open>2 ^ 1024\<close> on) is not
  modelled; the arithmetic of the engine stays between 0 and 100.
\<close>

definition float_round :: "real \<Rightarrow> real" where
  "float_round x =
     (if x = 0 then 0
      else if x < 0 then - (of_int (round_half_even (- x / ulp (- x))) * ulp (- x))
      else of_int (round_half_even (x / ulp x)) * ulp x)"

text \<open>
  True division \<^verbatim>\<open>a / b\<close> of two ints, or of two floats: the correctly rounded
  quotient.
\<close>

definition py_truediv :: "real \<Rightarrow> real \<Rightarrow> exn + real" where
  "py_truediv a b = (if b = 0 then Inl ZeroDivisionError else Inr (float_round (a / b)))"

text \<open>The product \<^verbatim>\<open>a * b\<close> of a float and a number: the exact product, rounded.\<close>

definition py_mul :: "real \<Rightarrow> real \<Rightarrow> real" where
  "py_mul a b = float_round (a * b)"

section \<open>Checklist items and check results\<close>

text \<open>
  The \<^verbatim>\<open>thresholds\<close> dict of a sensor item: each of the four keys may be missing.
\<close>

record thresholds =
  min_critical :: "real option"
  max_critical :: "real option"
  min_warning :: "real option"
  max_warning :: "real option"

text \<open>
  A checklist item is a dict loaded from the configuration; a field is \<open>None\<close> when
  the dict has no such key. \<^verbatim>\<open>run_inspection\<close> subscripts \<^verbatim>\<open>id\<close>, \<^verbatim>\<open>name\<close>,
  \<^verbatim>\<open>type\<close>, \<^verbatim>\<open>sensor_id\<close>, \<^verbatim>\<open>component_id\<close> and \<^verbatim>\<open>thresholds\<close>, and reads
  \<^verbatim>\<open>category\<close> and \<^verbatim>\<open>criticality\<close> through \<^verbatim>\<open>.get\<close> with a default.
\<close>

record item =
  it_id :: "string option"
  it_name :: "string option"
  it_type :: "string option"
  it_sensor_id :: "string option"
  it_component_id :: "string option"
  it_thresholds :: "thresholds option"
  it_category :: "string option"
  it_criticality :: "string option"

text \<open>
  A result dict as \<^verbatim>\<open>run_inspection\<close> builds it. The keys \<^verbatim>\<open>item_id\<close> to
  \<^verbatim>\<open>criticality\<close> are written on both paths; \<^verbatim>\<open>error\<close> only by the exception
  handler. The analyzer reads \<^verbatim>\<open>category\<close> and \<^verbatim>\<open>error\<close> through \<^verbatim>\<open>.get\<close>, so
  these two are optional in the type.
\<close>

record result =
  r_item_id :: string
  r_name :: string
  r_type :: string
  r_value :: pyval
  r_status :: string
  r_timestamp :: string
  r_category :: "string option"
  r_criticality :: string
  r_error :: "string option"

text \<open>
  The hardware collaborator, over a state \<open>'w\<close> of the outside world: each call
  returns a value or raises, and may change the state (readings are random in the
  simulator, a real device has its own state).
\<close>

record 'w elevator_interface =
  get_sensor_reading :: "string \<Rightarrow> 'w \<Rightarrow> (exn + pyval) \<times> 'w"
  test_mechanical_component :: "string \<Rightarrow> 'w \<Rightarrow> (exn + pyval) \<times> 'w"

text \<open>\<^verbatim>\<open>datetime.now().isoformat()\<close>: reads the clock of the world.\<close>

type_synonym 'w clock = "'w \<Rightarrow> string \<times> 'w"

section \<open>The checklist executor (checklist.py)\<close>

text \<open>
  \<^verbatim>\<open>'k' in thresholds and value < thresholds['k']\<close>: the comparison is evaluated
  only when the key is present.
\<close>

definition in_and_lt :: "pyval \<Rightarrow> real option \<Rightarrow> exn + bool" where
  "in_and_lt v bound = (case bound of None \<Rightarrow> Inr False | Some b \<Rightarrow> py_lt v b)"

definition in_and_gt :: "pyval \<Rightarrow> real option \<Rightarrow> exn + bool" where
  "in_and_gt v bound = (case bound of None \<Rightarrow> Inr False | Some b \<Rightarrow> py_gt v b)"

text \<open>\<^verbatim>\<open>SafetyChecklist._evaluate_sensor_reading\<close>, lines 99 to 107.\<close>

definition evaluate_sensor_reading :: "pyval \<Rightarrow> thresholds \<Rightarrow> exn + string" where
  "evaluate_sensor_reading v th =
     and_then (in_and_lt v (min_critical th)) (\<lambda>c1. if c1 then Inr ''fail'' else
     and_then (in_and_gt v (max_critical th)) (\<lambda>c2. if c2 then Inr ''fail'' else
     and_then (in_and_lt v (min_warning th)) (\<lambda>c3. if c3 then Inr ''warning'' else
     and_then (in_and_gt v (max_warning th)) (\<lambda>c4. if c4 then Inr ''warning'' else
     Inr ''pass''))))"

text \<open>
  Lines 42 to 56: the dispatch on \<^verbatim>\<open>item['type']\<close>, giving \<open>(value, status)\<close> or the
  exception raised on the way, and the state the hardware was left in.
\<close>

definition dispatch ::
  "'w elevator_interface \<Rightarrow> item \<Rightarrow> 'w \<Rightarrow> (exn + pyval \<times> string) \<times> 'w" where
  "dispatch hw it w =
     (case it_type it of
        None \<Rightarrow> (Inl (KeyError ''type''), w)
      | Some ty \<Rightarrow>
          if ty = ''sensor'' then
            (case it_sensor_id it of
               None \<Rightarrow> (Inl (KeyError ''sensor_id''), w)
             | Some sid \<Rightarrow>
                 (case get_sensor_reading hw sid w of
                    (Inl e, w') \<Rightarrow> (Inl e, w')
                  | (Inr v, w') \<Rightarrow>
                      (case it_thresholds it of
                         None \<Rightarrow> (Inl (KeyError ''thresholds''), w')
                       | Some th \<Rightarrow>
                           (case evaluate_sensor_reading v th of
                              Inl e \<Rightarrow> (Inl e, w')
                            | Inr status \<Rightarrow> (Inr (v, status), w')))))
          else if ty = ''visual'' then
            (Inr (PyStr ''SIMULATED VISUAL INSPECTION'', ''pass''), w)
          else if ty = ''mechanical'' then
            (case it_component_id it of
               None \<Rightarrow> (Inl (KeyError ''component_id''), w)
             | Some cid \<Rightarrow>
                 (case test_mechanical_component hw cid w of
                    (Inl e, w') \<Rightarrow> (Inl e, w')
                  | (Inr v, w') \<Rightarrow> (Inr (v, if truthy v then ''pass'' else ''fail''), w')))
          else (Inr (PyNone, ''skipped''), w))"

text \<open>\<^verbatim>\<open>item.get(key, default)\<close>.\<close>

definition get_or :: "'a option \<Rightarrow> 'a \<Rightarrow> 'a" where
  "get_or field dflt = (case field of None \<Rightarrow> dflt | Some x \<Rightarrow> x)"

text \<open>
  Lines 58 to 67: the result dict of a check that raised nothing. The dict display
  evaluates its values in order, so a missing \<^verbatim>\<open>id\<close> raises before the clock is read.
\<close>

definition make_result ::
  "'w clock \<Rightarrow> item \<Rightarrow> pyval \<Rightarrow> string \<Rightarrow> 'w \<Rightarrow> (exn + result) \<times> 'w" where
  "make_result now it v status w =
     (case it_id it of
        None \<Rightarrow> (Inl (KeyError ''id''), w)
      | Some iid \<Rightarrow>
          (case it_name it of
             None \<Rightarrow> (Inl (KeyError ''name''), w)
           | Some nm \<Rightarrow>
               (case it_type it of
                  None \<Rightarrow> (Inl (KeyError ''type''), w)
                | Some ty \<Rightarrow>
                    (case now w of
                       (ts, w') \<Rightarrow>
                         (Inr \<lparr> r_item_id = iid, r_name = nm, r_type = ty, r_value = v,
                                r_status = status, r_timestamp = ts,
                                r_category = Some (get_or (it_category it) ''general''),
                                r_criticality = get_or (it_criticality it) ''normal'',
                                r_error = None \<rparr>, w')))))"

text \<open>Lines 40 to 70: the body of the \<^verbatim>\<open>try\<close>; \<open>Inl e\<close> is an exception raised in it.\<close>

definition try_body ::
  "'w clock \<Rightarrow> 'w elevator_interface \<Rightarrow> item \<Rightarrow> 'w \<Rightarrow> (exn + result) \<times> 'w" where
  "try_body now hw it w =
     (case dispatch hw it w of
        (Inl e, w') \<Rightarrow> (Inl e, w')
      | (Inr (v, status), w') \<Rightarrow> make_result now it v status w')"

text \<open>
  Lines 72 to 84: the handler of \<^verbatim>\<open>except Exception as e\<close>. It subscripts the item
  again, so \<open>Inl\<close> here is an exception that leaves \<^verbatim>\<open>run_inspection\<close>.
\<close>

definition except_body :: "'w clock \<Rightarrow> item \<Rightarrow> exn \<Rightarrow> 'w \<Rightarrow> (exn + result) \<times> 'w" where
  "except_body now it e w =
     (case it_id it of
        None \<Rightarrow> (Inl (KeyError ''id''), w)
      | Some iid \<Rightarrow>
          (case it_name it of
             None \<Rightarrow> (Inl (KeyError ''name''), w)
           | Some nm \<Rightarrow>
               (case it_type it of
                  None \<Rightarrow> (Inl (KeyError ''type''), w)
                | Some ty \<Rightarrow>
                    (case now w of
                       (ts, w') \<Rightarrow>
                         (Inr \<lparr> r_item_id = iid, r_name = nm, r_type = ty, r_value = PyNone,
                                r_status = ''error'', r_timestamp = ts,
                                r_category = Some (get_or (it_category it) ''general''),
                                r_criticality = get_or (it_criticality it) ''normal'',
                                r_error = Some (str_exn e) \<rparr>, w')))))"

text \<open>
  Lines 38 to 84: one turn of the loop. The log line before the \<^verbatim>\<open>try\<close> subscripts
  \<^verbatim>\<open>item['name']\<close>, outside any handler.
\<close>

definition check_item ::
  "'w clock \<Rightarrow> 'w elevator_interface \<Rightarrow> item \<Rightarrow> 'w \<Rightarrow> (exn + result) \<times> 'w" where
  "check_item now hw it w =
     (case it_name it of
        None \<Rightarrow> (Inl (KeyError ''name''), w)
      | Some nm \<Rightarrow>
          (case try_body now hw it w of
             (Inr r, w') \<Rightarrow> (Inr r, w')
           | (Inl e, w') \<Rightarrow> except_body now it e w'))"

text \<open>
  Lines 35 to 86: the loop over the checklist, appending to \<^verbatim>\<open>results\<close>. \<open>Inl e\<close>
  is an exception that escapes the call; otherwise the list and the final state of
  the world are returned.
\<close>

fun inspection_loop ::
  "'w clock \<Rightarrow> 'w elevator_interface \<Rightarrow> item list \<Rightarrow> result list \<Rightarrow> 'w
     \<Rightarrow> exn + result list \<times> 'w" where
  "inspection_loop now hw [] results w = Inr (results, w)"
| "inspection_loop now hw (it # its) results w =
     (case check_item now hw it w of
        (Inl e, w') \<Rightarrow> Inl e
      | (Inr r, w') \<Rightarrow> inspection_loop now hw its (results @ [r]) w')"

definition run_inspection ::
  "'w clock \<Rightarrow> 'w elevator_interface \<Rightarrow> item list \<Rightarrow> 'w \<Rightarrow> exn + result list \<times> 'w" where
  "run_inspection now hw checklist_items w = inspection_loop now hw checklist_items [] w"

section \<open>The safety analyzer (safety_analyzer.py)\<close>

text \<open>The entries of \<^verbatim>\<open>critical_items\<close> and \<^verbatim>\<open>warning_items\<close>, and of \<^verbatim>\<open>error_items\<close>.\<close>

record issue_entry =
  ie_name :: string
  ie_value :: pyval
  ie_category :: string

record error_entry =
  ee_name :: string
  ee_error :: string
  ee_category :: string

text \<open>The local variables of \<^verbatim>\<open>analyze\<close> that the loop of lines 46 to 69 updates.\<close>

record tally =
  t_critical_issues :: nat
  t_warnings :: nat
  t_passed :: nat
  t_errors :: nat
  t_critical_items :: "issue_entry list"
  t_warning_items :: "issue_entry list"
  t_error_items :: "error_entry list"

text \<open>The dict that \<^verbatim>\<open>analyze\<close> returns, lines 94 to 107.\<close>

record analysis =
  summary :: string
  safety_level :: string
  action_required :: string
  critical_issues :: nat
  warnings :: nat
  passed :: nat
  errors :: nat
  compliance_percentage :: real
  critical_items :: "issue_entry list"
  warning_items :: "issue_entry list"
  error_items :: "error_entry list"
  total_checks :: nat

definition issue_of :: "result \<Rightarrow> issue_entry" where
  "issue_of r = \<lparr> ie_name = r_name r, ie_value = r_value r,
                   ie_category = get_or (r_category r) ''general'' \<rparr>"

definition error_of :: "result \<Rightarrow> error_entry" where
  "error_of r = \<lparr> ee_name = r_name r, ee_error = get_or (r_error r) ''Unknown error'',
                   ee_category = get_or (r_category r) ''general'' \<rparr>"

text \<open>Lines 35 to 43.\<close>

definition tally0 :: tally where
  "tally0 = \<lparr> t_critical_issues = 0, t_warnings = 0, t_passed = 0, t_errors = 0,
              t_critical_items = [], t_warning_items = [], t_error_items = [] \<rparr>"

text \<open>Lines 47 to 69: the \<^verbatim>\<open>if\<close>/\<^verbatim>\<open>elif\<close> chain on \<^verbatim>\<open>result['status']\<close>.\<close>

definition tally_step :: "tally \<Rightarrow> result \<Rightarrow> tally" where
  "tally_step t r =
     (if r_status r = ''fail'' then
        t\<lparr> t_critical_issues := t_critical_issues t + 1,
           t_critical_items := t_critical_items t @ [issue_of r] \<rparr>
      else if r_status r = ''warning'' then
        t\<lparr> t_warnings := t_warnings t + 1,
           t_warning_items := t_warning_items t @ [issue_of r] \<rparr>
      else if r_status r = ''pass'' then
        t\<lparr> t_passed := t_passed t + 1 \<rparr>
      else if r_status r = ''error'' then
        t\<lparr> t_errors := t_errors t + 1,
           t_error_items := t_error_items t @ [error_of r] \<rparr>
      else t)"

fun tally_loop :: "result list \<Rightarrow> tally \<Rightarrow> tally" where
  "tally_loop [] t = t"
| "tally_loop (r # rs) t = tally_loop rs (tally_step t r)"

text \<open>Lines 72 to 87: \<open>(summary, action_required, safety_level)\<close>.\<close>

definition classify :: "tally \<Rightarrow> string \<times> string \<times> string" where
  "classify t =
     (if t_critical_issues t > 0 then
        (''UNSAFE - Critical issues detected'',
         ''Immediate maintenance required. Elevator should not be used until fixed.'',
         ''critical'')
      else if t_warnings t > 0 then
        (''CAUTION - Warnings detected'',
         ''Schedule maintenance soon to address warnings.'',
         ''warning'')
      else if t_errors t > 0 then
        (''INCOMPLETE - Inspection errors'',
         ''Some tests failed to complete. Re-inspection recommended.'',
         ''incomplete'')
      else
        (''SAFE - All checks passed'',
         ''Regular maintenance schedule can be followed.'',
         ''safe''))"

text \<open>
  Lines 90 and 91. The local \<^verbatim>\<open>total_checks\<close> of line 90 is the denominator; the
  key \<^verbatim>\<open>total_checks\<close> of the returned dict is \<^verbatim>\<open>len(inspection_results)\<close>.
\<close>

definition compliance :: "tally \<Rightarrow> exn + real" where
  "compliance t =
     (let total = t_critical_issues t + t_warnings t + t_passed t in
      if total > 0
      then and_then (py_truediv (real (t_passed t)) (real total)) (\<lambda>q. Inr (py_mul q 100))
      else Inr 0)"

text \<open>\<^verbatim>\<open>SafetyAnalyzer.analyze\<close>; \<open>Inl e\<close> is an exception that escapes the call.\<close>

definition analyze :: "result list \<Rightarrow> exn + analysis" where
  "analyze inspection_results =
     (let t = tally_loop inspection_results tally0 in
      case classify t of
        (summ, action, level) \<Rightarrow>
          and_then (compliance t) (\<lambda>pct.
            Inr \<lparr> summary = summ, safety_level = level, action_required = action,
                  critical_issues = t_critical_issues t, warnings = t_warnings t,
                  passed = t_passed t, errors = t_errors t,
                  compliance_percentage = pct,
                  critical_items = t_critical_items t,
                  warning_items = t_warning_items t,
                  error_items = t_error_items t,
                  total_checks = length inspection_results \<rparr>))"

section \<open>Notions of the specification\<close>

text \<open>
  The specification assumes that every checklist item carries \<^verbatim>\<open>id\<close>, \<^verbatim>\<open>name\<close>
  and a kind (the key \<^verbatim>\<open>type\<close>); the other keys depend on the kind.
\<close>

definition has_required_keys :: "item \<Rightarrow> bool" where
  "has_required_keys it = (it_id it \<noteq> None \<and> it_name it \<noteq> None \<and> it_type it \<noteq> None)"

text \<open>
  A result is the outcome of its item's own check: when the dispatch returned a value
  and a status, the result has this status (never \<open>error\<close>), this value and no error
  message; when the dispatch raised, the result has status \<open>error\<close>, no value and the
  message of that exception.
\<close>

definition own_outcome :: "exn + pyval \<times> string \<Rightarrow> result \<Rightarrow> bool" where
  "own_outcome d r =
     (case d of
        Inl e \<Rightarrow> r_status r = ''error'' \<and> r_value r = PyNone \<and> r_error r = Some (str_exn e)
      | Inr (v, st) \<Rightarrow>
          r_status r = st \<and> st \<noteq> ''error'' \<and> r_value r = v \<and> r_error r = None)"

text \<open>The subsequence of the results with a given status, in input order.\<close>

definition with_status :: "string \<Rightarrow> result list \<Rightarrow> result list" where
  "with_status s rs = filter (\<lambda>r. r_status r = s) rs"

text \<open>
  The threshold rule in the specification's words: the first violated bound, in the
  order minCritical, maxCritical, minWarning, maxWarning, decides.
\<close>

definition violates_min :: "real option \<Rightarrow> real \<Rightarrow> bool" where
  "violates_min bound x = (case bound of None \<Rightarrow> False | Some b \<Rightarrow> x < b)"

definition violates_max :: "real option \<Rightarrow> real \<Rightarrow> bool" where
  "violates_max bound x = (case bound of None \<Rightarrow> False | Some b \<Rightarrow> x > b)"

definition spec_threshold_status :: "real \<Rightarrow> thresholds \<Rightarrow> string" where
  "spec_threshold_status x th =
     (if violates_min (min_critical th) x then ''fail''
      else if violates_max (max_critical th) x then ''fail''
      else if violates_min (min_warning th) x then ''warning''
      else if violates_max (max_warning th) x then ''warning''
      else ''pass'')"

text \<open>The thresholds dict with no key: \<^verbatim>\<open>{}\<close>.\<close>

definition no_thresholds :: thresholds where
  "no_thresholds = \<lparr> min_critical = None, max_critical = None,
                     min_warning = None, max_warning = None \<rparr>"

section \<open>Reference inputs\<close>

text \<open>
  The fixture of the repository's unit tests (\<^verbatim>\<open>TestSafetyChecklist.setUp\<close>): three
  items, and a mock elevator that reads 30.0 from every sensor and passes every
  mechanical test. The world is a counter of the calls made so far.
\<close>

definition test_thresholds :: thresholds where
  "test_thresholds = \<lparr> min_critical = None, max_critical = Some 70,
                       min_warning = Some 10, max_warning = Some 50 \<rparr>"

definition test_sensor :: item where
  "test_sensor = \<lparr> it_id = Some ''test_sensor'', it_name = Some ''Test Sensor'',
                   it_type = Some ''sensor'', it_sensor_id = Some ''test_sensor_1'',
                   it_component_id = None, it_thresholds = Some test_thresholds,
                   it_category = Some ''test'', it_criticality = Some ''high'' \<rparr>"

definition test_visual :: item where
  "test_visual = \<lparr> it_id = Some ''test_visual'', it_name = Some ''Test Visual'',
                   it_type = Some ''visual'', it_sensor_id = None,
                   it_component_id = None, it_thresholds = None,
                   it_category = Some ''test'', it_criticality = Some ''medium'' \<rparr>"

definition test_mechanical :: item where
  "test_mechanical = \<lparr> it_id = Some ''test_mechanical'', it_name = Some ''Test Mechanical'',
                       it_type = Some ''mechanical'', it_sensor_id = None,
                       it_component_id = Some ''test_component'', it_thresholds = None,
                       it_category = Some ''test'', it_criticality = Some ''critical'' \<rparr>"

definition mock_elevator :: "nat elevator_interface" where
  "mock_elevator = \<lparr> get_sensor_reading = (\<lambda>sid n. (Inr (PyNum 30), Suc n)),
                     test_mechanical_component = (\<lambda>cid n. (Inr (PyBool True), Suc n)) \<rparr>"

text \<open>The mock of \<^verbatim>\<open>test_error_handling\<close>: reading a sensor raises \<^verbatim>\<open>Exception("Sensor error")\<close>.\<close>

definition failing_elevator :: "nat elevator_interface" where
  "failing_elevator = \<lparr> get_sensor_reading = (\<lambda>sid n. (Inl (Failure ''Sensor error''), Suc n)),
                        test_mechanical_component = (\<lambda>cid n. (Inr (PyBool True), Suc n)) \<rparr>"

definition mock_now :: "nat clock" where
  "mock_now n = (''2024-01-01T00:00:00'', Suc n)"

text \<open>
  The item \<^verbatim>\<open>door_operation\<close> of \<^verbatim>\<open>get_default_config\<close> (config.py, lines 151 to
  158): a sensor item with no \<^verbatim>\<open>thresholds\<close> key. Its sensor is of type
  \<^verbatim>\<open>door_sensor\<close>, whose reading is a bool.
\<close>

definition door_operation :: item where
  "door_operation = \<lparr> it_id = Some ''door_operation'', it_name = Some ''Door Operation'',
                      it_type = Some ''sensor'', it_sensor_id = Some ''door_sensor'',
                      it_component_id = None, it_thresholds = None,
                      it_category = Some ''safety'', it_criticality = Some ''critical'' \<rparr>"

definition door_elevator :: "nat elevator_interface" where
  "door_elevator = \<lparr> get_sensor_reading = (\<lambda>sid n. (Inr (PyBool True), Suc n)),
                     test_mechanical_component = (\<lambda>cid n. (Inr (PyBool True), Suc n)) \<rparr>"

text \<open>An item of a kind the executor does not know.\<close>

definition thermal_scan :: item where
  "thermal_scan = \<lparr> it_id = Some ''thermal_scan'', it_name = Some ''Thermal Scan'',
                    it_type = Some ''thermal'', it_sensor_id = None,
                    it_component_id = None, it_thresholds = None,
                    it_category = None, it_criticality = None \<rparr>"

text \<open>A result dict with a given name, value and status, for the analyzer.\<close>

definition sample_result :: "string \<Rightarrow> pyval \<Rightarrow> string \<Rightarrow> result" where
  "sample_result nm v st =
     \<lparr> r_item_id = nm, r_name = nm, r_type = ''sensor'', r_value = v, r_status = st,
       r_timestamp = ''2024-01-01T00:00:00'', r_category = Some ''test'',
       r_criticality = ''high'',
       r_error = (if st = ''error'' then Some ''Sensor error'' else None) \<rparr>"

section \<open>The executor: one item, then the loop\<close>

text \<open>With the three required keys, neither path of the loop body can raise.\<close>

lemma make_result_required:
  assumes "it_id it = Some iid" "it_name it = Some nm" "it_type it = Some ty"
  shows "make_result now it v st w =
     (Inr \<lparr> r_item_id = iid, r_name = nm, r_type = ty, r_value = v,
            r_status = st, r_timestamp = fst (now w),
            r_category = Some (get_or (it_category it) ''general''),
            r_criticality = get_or (it_criticality it) ''normal'',
            r_error = None \<rparr>, snd (now w))"
  using assms by (simp add: make_result_def split: prod.splits)

lemma except_body_required:
  assumes "it_id it = Some iid" "it_name it = Some nm" "it_type it = Some ty"
  shows "except_body now it e w =
     (Inr \<lparr> r_item_id = iid, r_name = nm, r_type = ty, r_value = PyNone,
            r_status = ''error'', r_timestamp = fst (now w),
            r_category = Some (get_or (it_category it) ''general''),
            r_criticality = get_or (it_criticality it) ''normal'',
            r_error = Some (str_exn e) \<rparr>, snd (now w))"
  using assms by (simp add: except_body_def split: prod.splits)

lemma check_item_raised:
  assumes "it_id it = Some iid" "it_name it = Some nm" "it_type it = Some ty"
    and "dispatch hw it w = (Inl e, w1)"
  shows "check_item now hw it w =
     (Inr \<lparr> r_item_id = iid, r_name = nm, r_type = ty, r_value = PyNone,
            r_status = ''error'', r_timestamp = fst (now w1),
            r_category = Some (get_or (it_category it) ''general''),
            r_criticality = get_or (it_criticality it) ''normal'',
            r_error = Some (str_exn e) \<rparr>, snd (now w1))"
  using assms by (simp add: check_item_def try_body_def except_body_required)

lemma check_item_returned:
  assumes "it_id it = Some iid" "it_name it = Some nm" "it_type it = Some ty"
    and "dispatch hw it w = (Inr (v, st), w1)"
  shows "check_item now hw it w =
     (Inr \<lparr> r_item_id = iid, r_name = nm, r_type = ty, r_value = v,
            r_status = st, r_timestamp = fst (now w1),
            r_category = Some (get_or (it_category it) ''general''),
            r_criticality = get_or (it_criticality it) ''normal'',
            r_error = None \<rparr>, snd (now w1))"
  using assms by (simp add: check_item_def try_body_def make_result_required)

lemma check_item_required:
  assumes "has_required_keys it"
  shows "\<exists>r w'. check_item now hw it w = (Inr r, w')
           \<and> Some (r_item_id r) = it_id it \<and> Some (r_name r) = it_name it
           \<and> Some (r_type r) = it_type it"
proof -
  from assms obtain iid nm ty where
    keys: "it_id it = Some iid" "it_name it = Some nm" "it_type it = Some ty"
    by (auto simp: has_required_keys_def)
  obtain d w1 where d: "dispatch hw it w = (d, w1)"
    by (cases "dispatch hw it w")
  show ?thesis
  proof (cases d)
    case (Inl e)
    with d keys show ?thesis by (simp add: check_item_raised [OF keys])
  next
    case (Inr p)
    then obtain v st where "d = Inr (v, st)" by (cases p) simp
    with d keys show ?thesis by (simp add: check_item_returned [OF keys])
  qed
qed

text \<open>The statuses the dispatch can give: never \<open>error\<close>.\<close>

lemma evaluate_sensor_reading_status:
  assumes "evaluate_sensor_reading v th = Inr st"
  shows "st = ''fail'' \<or> st = ''warning'' \<or> st = ''pass''"
  using assms
  by (auto simp: evaluate_sensor_reading_def and_then_def split: sum.splits if_splits)

lemma dispatch_status:
  assumes "dispatch hw it w = (Inr (v, st), w1)"
  shows "st = ''fail'' \<or> st = ''warning'' \<or> st = ''pass'' \<or> st = ''skipped''"
  using assms
  by (auto simp: dispatch_def split: option.splits if_splits prod.splits sum.splits
      dest: evaluate_sensor_reading_status)

text \<open>A result has status \<open>error\<close> exactly when it carries an error message of its own.\<close>

lemma check_item_error_iff:
  assumes "check_item now hw it w = (Inr r, w')"
  shows "(r_status r = ''error'') = (r_error r \<noteq> None)"
proof -
  from assms obtain nm where nm: "it_name it = Some nm"
    by (auto simp: check_item_def split: option.splits)
  obtain d w1 where d: "dispatch hw it w = (d, w1)"
    by (cases "dispatch hw it w")
  show ?thesis
  proof (cases d)
    case (Inl e)
    with assms nm d show ?thesis
      by (auto simp: check_item_def try_body_def except_body_def
          split: option.splits prod.splits)
  next
    case (Inr p)
    then obtain v st where p: "d = Inr (v, st)" by (cases p) simp
    with d have "st \<noteq> ''error''"
      using dispatch_status [of hw it w v st w1] by auto
    with assms nm d p show ?thesis
      by (auto simp: check_item_def try_body_def make_result_def except_body_def
          split: option.splits prod.splits)
  qed
qed

text \<open>The accumulator of the loop only collects: the results of a run do not depend on it.\<close>

lemma inspection_loop_acc:
  "inspection_loop now hw its acc w =
     (case inspection_loop now hw its [] w of
        Inl e \<Rightarrow> Inl e
      | Inr (rs, w') \<Rightarrow> Inr (acc @ rs, w'))"
proof (induction its arbitrary: acc w)
  case Nil
  show ?case by simp
next
  case (Cons it its)
  show ?case
  proof (cases "check_item now hw it w")
    case (Pair m w1)
    show ?thesis
    proof (cases m)
      case (Inl e)
      with Pair show ?thesis by simp
    next
      case (Inr r)
      with Pair show ?thesis
        by (simp add: Cons.IH [of "acc @ [r]"] Cons.IH [of "[r]"] split: sum.splits)
    qed
  qed
qed

lemma run_inspection_Nil: "run_inspection now hw [] w = Inr ([], w)"
  by (simp add: run_inspection_def)

lemma run_inspection_Cons:
  "run_inspection now hw (it # its) w =
     (case check_item now hw it w of
        (Inl e, w1) \<Rightarrow> Inl e
      | (Inr r, w1) \<Rightarrow>
          (case run_inspection now hw its w1 of
             Inl e \<Rightarrow> Inl e
           | Inr (rs, w') \<Rightarrow> Inr (r # rs, w')))"
  by (simp add: run_inspection_def inspection_loop_acc [of _ _ _ "[_]"]
      split: prod.splits sum.splits)

lemma run_inspection_append:
  "run_inspection now hw (xs @ ys) w =
     (case run_inspection now hw xs w of
        Inl e \<Rightarrow> Inl e
      | Inr (rs1, w1) \<Rightarrow>
          (case run_inspection now hw ys w1 of
             Inl e \<Rightarrow> Inl e
           | Inr (rs2, w') \<Rightarrow> Inr (rs1 @ rs2, w')))"
proof (induction xs arbitrary: w)
  case Nil
  show ?case by (simp add: run_inspection_Nil split: sum.splits)
next
  case (Cons x xs)
  show ?case
    by (simp add: run_inspection_Cons Cons.IH split: prod.splits sum.splits)
qed

text \<open>A run over items with the required keys returns one result per item, in order.\<close>

lemma run_inspection_required:
  assumes "\<forall>it\<in>set items. has_required_keys it"
  shows "\<exists>rs w'. run_inspection now hw items w = Inr (rs, w')
           \<and> length rs = length items
           \<and> map (\<lambda>r. Some (r_item_id r)) rs = map it_id items
           \<and> map (\<lambda>r. Some (r_name r)) rs = map it_name items
           \<and> map (\<lambda>r. Some (r_type r)) rs = map it_type items"
  using assms
proof (induction items arbitrary: w)
  case Nil
  show ?case by (simp add: run_inspection_Nil)
next
  case (Cons it its)
  then have "has_required_keys it" by simp
  from check_item_required [OF this, of now hw w]
  obtain r w1 where r: "check_item now hw it w = (Inr r, w1)"
    "Some (r_item_id r) = it_id it" "Some (r_name r) = it_name it" "Some (r_type r) = it_type it"
    by blast
  from Cons have "\<forall>it\<in>set its. has_required_keys it" by simp
  from Cons.IH [OF this, of w1]
  obtain rs w' where rs: "run_inspection now hw its w1 = Inr (rs, w')"
    "length rs = length its"
    "map (\<lambda>r. Some (r_item_id r)) rs = map it_id its"
    "map (\<lambda>r. Some (r_name r)) rs = map it_name its"
    "map (\<lambda>r. Some (r_type r)) rs = map it_type its"
    by blast
  from r rs show ?case by (simp add: run_inspection_Cons)
qed

text \<open>Every result of a run is the result of the loop body on the item at its position.\<close>

lemma run_inspection_nth:
  assumes "run_inspection now hw items w = Inr (rs, w')" and "k < length items"
  shows "\<exists>wk wk'. check_item now hw (items ! k) wk = (Inr (rs ! k), wk')"
  using assms
proof (induction items arbitrary: w rs k)
  case Nil
  then show ?case by simp
next
  case (Cons it its)
  from Cons.prems(1) obtain r w1 rs1 where
    r: "check_item now hw it w = (Inr r, w1)"
    and rs1: "run_inspection now hw its w1 = Inr (rs1, w')"
    and rs: "rs = r # rs1"
    by (auto simp: run_inspection_Cons split: prod.splits sum.splits)
  show ?case
  proof (cases k)
    case 0
    with r rs show ?thesis by auto
  next
    case (Suc j)
    with Cons.prems(2) have "j < length its" by simp
    from Cons.IH [OF rs1 this] Suc rs show ?thesis by simp
  qed
qed

lemma run_inspection_length:
  assumes "run_inspection now hw items w = Inr (rs, w')"
  shows "length rs = length items"
  using assms
proof (induction items arbitrary: w rs)
  case Nil
  then show ?case by (simp add: run_inspection_Nil)
next
  case (Cons it its)
  then show ?case
    by (auto simp: run_inspection_Cons split: prod.splits sum.splits)
qed

lemma run_inspection_error_iff:
  assumes "run_inspection now hw items w = Inr (rs, w')" and "q \<in> set rs"
  shows "(r_status q = ''error'') = (r_error q \<noteq> None)"
proof -
  from assms(2) obtain k where k: "k < length rs" "q = rs ! k"
    by (auto simp: in_set_conv_nth)
  with run_inspection_length [OF assms(1)] have "k < length items" by simp
  from run_inspection_nth [OF assms(1) this]
  obtain wk wk' where "check_item now hw (items ! k) wk = (Inr (rs ! k), wk')"
    by blast
  from check_item_error_iff [OF this] k show ?thesis
    by simp
qed

text \<open>
  Every result is the outcome of the dispatch of its own item, made in the state
  that the items before it left.
\<close>

lemma check_item_outcome:
  assumes "check_item now hw it w = (Inr r, w')"
  shows "own_outcome (fst (dispatch hw it w)) r"
proof -
  from assms obtain nm where nm: "it_name it = Some nm"
    by (auto simp: check_item_def split: option.splits)
  obtain d w1 where d: "dispatch hw it w = (d, w1)"
    by (cases "dispatch hw it w")
  show ?thesis
  proof (cases d)
    case (Inl e)
    with assms nm d show ?thesis
      by (auto simp: own_outcome_def check_item_def try_body_def except_body_def
          split: option.splits prod.splits)
  next
    case (Inr p)
    then obtain v st where p: "d = Inr (v, st)" by (cases p) simp
    with d have "st \<noteq> ''error''"
      using dispatch_status [of hw it w v st w1] by auto
    with assms nm d p show ?thesis
      by (auto simp: own_outcome_def check_item_def try_body_def make_result_def
          except_body_def split: option.splits prod.splits)
  qed
qed

lemma run_inspection_nth_state:
  assumes "run_inspection now hw items w = Inr (rs, w')" and "k < length items"
  shows "\<exists>wk wk'. run_inspection now hw (take k items) w = Inr (take k rs, wk)
           \<and> check_item now hw (items ! k) wk = (Inr (rs ! k), wk')"
proof -
  from assms(2) have split: "items = take k items @ items ! k # drop (Suc k) items"
    by (rule id_take_nth_drop)
  from assms(1) have "run_inspection now hw (take k items @ items ! k # drop (Suc k) items) w
      = Inr (rs, w')"
    using split by simp
  then obtain rsA wk r wk' rsC where
    A: "run_inspection now hw (take k items) w = Inr (rsA, wk)"
    and r: "check_item now hw (items ! k) wk = (Inr r, wk')"
    and rs: "rs = rsA @ r # rsC"
    by (auto simp: run_inspection_append run_inspection_Cons split: sum.splits prod.splits)
  from run_inspection_length [OF A] assms(2) have "length rsA = k"
    by simp
  with rs have "take k rs = rsA" "rs ! k = r"
    by (simp_all add: nth_append)
  with A r show ?thesis by blast
qed

lemma run_inspection_own_outcome:
  assumes "run_inspection now hw items w = Inr (rs, w')" and "k < length items"
  shows "\<exists>wk. run_inspection now hw (take k items) w = Inr (take k rs, wk)
           \<and> own_outcome (fst (dispatch hw (items ! k) wk)) (rs ! k)"
proof -
  from run_inspection_nth_state [OF assms]
  obtain wk wk' where "run_inspection now hw (take k items) w = Inr (take k rs, wk)"
    and body: "check_item now hw (items ! k) wk = (Inr (rs ! k), wk')"
    by blast
  with check_item_outcome [OF body] show ?thesis by blast
qed

text \<open>What the dispatch does when the hardware raises, and on an unknown kind.\<close>

lemma dispatch_sensor_raises:
  assumes "it_type it = Some ''sensor''" "it_sensor_id it = Some sid"
    and "get_sensor_reading hw sid w = (Inl e, w1)"
  shows "dispatch hw it w = (Inl e, w1)"
  using assms by (simp add: dispatch_def)

lemma dispatch_mechanical_raises:
  assumes "it_type it = Some ''mechanical''" "it_component_id it = Some cid"
    and "test_mechanical_component hw cid w = (Inl e, w1)"
  shows "dispatch hw it w = (Inl e, w1)"
  using assms by (simp add: dispatch_def)

lemma dispatch_unknown:
  assumes "it_type it = Some ty"
    and "ty \<noteq> ''sensor''" "ty \<noteq> ''visual''" "ty \<noteq> ''mechanical''"
  shows "dispatch hw it w = (Inr (PyNone, ''skipped''), w)"
  using assms by (simp add: dispatch_def)

lemma dispatch_no_thresholds:
  assumes "it_type it = Some ''sensor''" "it_sensor_id it = Some sid"
    and "it_thresholds it = None" "get_sensor_reading hw sid w = (Inr v, w1)"
  shows "dispatch hw it w = (Inl (KeyError ''thresholds''), w1)"
  using assms by (simp add: dispatch_def)

text \<open>The comparisons on a number never raise.\<close>

lemma in_and_lt_num: "in_and_lt (PyNum x) bound = Inr (violates_min bound x)"
  by (simp add: in_and_lt_def violates_min_def split: option.splits)

lemma in_and_gt_num: "in_and_gt (PyNum x) bound = Inr (violates_max bound x)"
  by (simp add: in_and_gt_def violates_max_def split: option.splits)

lemma evaluate_sensor_reading_num:
  "evaluate_sensor_reading (PyNum x) th = Inr (spec_threshold_status x th)"
  by (simp add: evaluate_sensor_reading_def spec_threshold_status_def and_then_def
      in_and_lt_num in_and_gt_num)

text \<open>
  A sensor item without the key \<^verbatim>\<open>thresholds\<close>: line 44 subscripts it after the
  reading has been taken, the \<^verbatim>\<open>KeyError\<close> is caught by the handler of line 72, and
  the reading is lost. With the key present and empty, the same item passes.
\<close>

lemma sensor_without_thresholds:
  assumes "it_id it = Some iid" "it_name it = Some nm"
    and "it_type it = Some ''sensor''" "it_sensor_id it = Some sid"
    and "it_thresholds it = None" "get_sensor_reading hw sid w = (Inr v, w1)"
  shows "\<exists>r. check_item now hw it w = (Inr r, snd (now w1))
           \<and> r_status r = ''error'' \<and> r_value r = PyNone
           \<and> r_error r = Some (str_exn (KeyError ''thresholds''))"
  using check_item_raised [OF assms(1-3) dispatch_no_thresholds [OF assms(3-6)], of now]
  by simp

lemma sensor_with_empty_thresholds:
  assumes "it_id it = Some iid" "it_name it = Some nm"
    and "it_type it = Some ''sensor''" "it_sensor_id it = Some sid"
    and "it_thresholds it = Some no_thresholds" "get_sensor_reading hw sid w = (Inr v, w1)"
  shows "\<exists>r. check_item now hw it w = (Inr r, snd (now w1))
           \<and> r_status r = ''pass'' \<and> r_value r = v \<and> r_error r = None"
proof -
  have "evaluate_sensor_reading v no_thresholds = Inr ''pass''"
    by (simp add: evaluate_sensor_reading_def no_thresholds_def and_then_def
        in_and_lt_def in_and_gt_def)
  with assms(3-6) have "dispatch hw it w = (Inr (v, ''pass''), w1)"
    by (simp add: dispatch_def)
  from check_item_returned [OF assms(1-3) this, of now] show ?thesis
    by simp
qed

text \<open>
  The required keys are needed: the log line of line 38 subscripts \<^verbatim>\<open>name\<close> outside
  the \<^verbatim>\<open>try\<close>, and the handler subscripts \<^verbatim>\<open>id\<close> and \<^verbatim>\<open>type\<close> again.
\<close>

lemma missing_name_escapes:
  assumes "it_name it = None"
  shows "run_inspection now hw (it # its) w = Inl (KeyError ''name'')"
  using assms by (simp add: run_inspection_def check_item_def)

lemma check_item_not_required:
  assumes "\<not> has_required_keys it"
  shows "\<exists>k w'. check_item now hw it w = (Inl (KeyError k), w')"
proof (cases "it_name it")
  case None
  then show ?thesis by (simp add: check_item_def)
next
  case (Some nm)
  with assms have missing: "it_id it = None \<or> it_type it = None"
    by (simp add: has_required_keys_def)
  obtain d w1 where d: "dispatch hw it w = (d, w1)"
    by (cases "dispatch hw it w")
  show ?thesis
  proof (cases d)
    case (Inl e)
    with Some missing d show ?thesis
      by (auto simp: check_item_def try_body_def except_body_def split: option.splits)
  next
    case (Inr p)
    with Some missing d show ?thesis
      by (cases p)
        (auto simp: check_item_def try_body_def make_result_def except_body_def
          split: option.splits)
  qed
qed

lemma missing_key_escapes:
  assumes "\<not> has_required_keys it"
  shows "\<exists>k. run_inspection now hw (it # its) w = Inl (KeyError k)"
proof -
  from check_item_not_required [OF assms, of now hw w]
  obtain k w' where "check_item now hw it w = (Inl (KeyError k), w')"
    by blast
  then show ?thesis by (simp add: run_inspection_def)
qed

section \<open>Rounding to a float\<close>

lemma round_half_even_cases:
  "round_half_even y = \<lfloor>y\<rfloor> \<and> y - of_int \<lfloor>y\<rfloor> \<le> 1 / 2
   \<or> round_half_even y = \<lfloor>y\<rfloor> + 1 \<and> 1 / 2 \<le> y - of_int \<lfloor>y\<rfloor>"
  by (simp add: round_half_even_def Let_def)

lemma round_half_even_le:
  assumes "y \<le> of_int n"
  shows "round_half_even y \<le> n"
proof -
  from assms have "\<lfloor>y\<rfloor> \<le> n" by (simp add: floor_le_iff)
  moreover have "\<lfloor>y\<rfloor> + 1 \<le> n" if "1 / 2 \<le> y - of_int \<lfloor>y\<rfloor>"
  proof -
    from that have "of_int \<lfloor>y\<rfloor> < y" by simp
    with assms have "(of_int \<lfloor>y\<rfloor> :: real) < of_int n" by simp
    then show ?thesis by simp
  qed
  ultimately show ?thesis
    using round_half_even_cases [of y] by auto
qed

lemma round_half_even_nonneg:
  assumes "0 \<le> y"
  shows "0 \<le> round_half_even y"
proof -
  from assms have "0 \<le> \<lfloor>y\<rfloor>" by simp
  then show ?thesis
    using round_half_even_cases [of y] by auto
qed

lemma round_half_even_error: "\<bar>of_int (round_half_even y) - y\<bar> \<le> 1 / 2"
proof -
  have "of_int \<lfloor>y\<rfloor> \<le> y" "y < of_int \<lfloor>y\<rfloor> + 1"
    by linarith+
  then show ?thesis
    using round_half_even_cases [of y] by auto
qed

lemma binade_le:
  assumes "0 < x" "x < 2 ^ Suc k"
  shows "binade x \<le> int k"
proof (cases "1 \<le> x")
  case True
  have "real (nat \<lfloor>x\<rfloor>) \<le> x"
    using True by simp
  with assms(2) have "real (nat \<lfloor>x\<rfloor>) < real (2 ^ Suc k)"
    by simp
  then have "nat \<lfloor>x\<rfloor> < 2 ^ Suc k"
    by (simp only: of_nat_less_iff)
  then have "floorlog 2 (nat \<lfloor>x\<rfloor>) \<le> Suc k"
    by (intro floorlog_leI) simp_all
  with True show ?thesis
    by (simp add: binade_def)
next
  case False
  then show ?thesis
    by (simp add: binade_def)
qed

lemma ulp_pos: "0 < ulp x"
  by (simp add: ulp_def)

lemma ulp_le:
  assumes "0 < x" "x < 2 ^ Suc k"
  shows "ulp x \<le> 2 powi (int k - 52)"
proof -
  from binade_le [OF assms] have "max (binade x) (- 1022) - 52 \<le> int k - 52"
    by simp
  then show ?thesis
    unfolding ulp_def by (intro power_int_increasing) simp_all
qed

lemma float_round_pos:
  assumes "0 < x"
  shows "float_round x = of_int (round_half_even (x / ulp x)) * ulp x"
  using assms by (simp add: float_round_def)

lemma float_round_nonneg:
  assumes "0 \<le> x"
  shows "0 \<le> float_round x"
proof (cases "x = 0")
  case True
  then show ?thesis by (simp add: float_round_def)
next
  case False
  with assms have pos: "0 < x" by simp
  then have "0 \<le> x / ulp x"
    using ulp_pos [of x] by simp
  then have "0 \<le> round_half_even (x / ulp x)"
    by (rule round_half_even_nonneg)
  then show ?thesis
    using ulp_pos [of x] by (simp add: float_round_pos [OF pos])
qed

text \<open>Rounding moves a number below \<open>2 ^ (k + 1)\<close> by at most half a spacing.\<close>

lemma float_round_error:
  assumes "0 < x" "x < 2 ^ Suc k"
  shows "\<bar>float_round x - x\<bar> \<le> 2 powi (int k - 52) / 2"
proof -
  define u where "u = ulp x"
  define y where "y = x / u"
  have u: "0 < u" unfolding u_def by (rule ulp_pos)
  have x: "x = y * u"
    using u by (simp add: y_def)
  have fr: "float_round x = of_int (round_half_even y) * u"
    by (simp add: float_round_pos [OF assms(1)] u_def y_def)
  have "float_round x - x = of_int (round_half_even y) * u - y * u"
    using fr x by simp
  also have "\<dots> = (of_int (round_half_even y) - y) * u"
    by (simp add: algebra_simps)
  finally have "\<bar>float_round x - x\<bar> = \<bar>of_int (round_half_even y) - y\<bar> * u"
    using u by (simp only: abs_mult abs_of_pos)
  also have "\<dots> \<le> 1 / 2 * u"
    using u round_half_even_error [of y] by (intro mult_right_mono) simp_all
  also have "\<dots> \<le> 1 / 2 * 2 powi (int k - 52)"
    using ulp_le [OF assms] by (simp add: u_def)
  finally show ?thesis by simp
qed

text \<open>Rounding does not cross an integer below \<open>2 ^ 53\<close>: such an integer is a float.\<close>

lemma float_round_le_int:
  assumes "0 < x" "x \<le> of_int m" "m < 2 ^ 53"
  shows "float_round x \<le> of_int m"
proof -
  define E where "E = max (binade x) (- 1022)"
  define u where "u = ulp x"
  define y where "y = x / u"
  have u: "0 < u" unfolding u_def by (rule ulp_pos)
  have u_eq: "u = 2 powi (E - 52)"
    by (simp add: u_def ulp_def E_def)
  have fr: "float_round x = of_int (round_half_even y) * u"
    by (simp add: float_round_pos [OF assms(1)] u_def y_def)
  from assms(3) have "(of_int m :: real) < of_int (2 ^ 53)"
    by (simp only: of_int_less_iff)
  with assms(2) have "x < 2 ^ Suc 52"
    by simp
  from binade_le [OF assms(1) this] have E: "E \<le> 52"
    by (simp add: E_def)
  define N where "N = m * 2 ^ nat (52 - E)"
  have "(2::real) powi (52 - E) * 2 powi (E - 52) = 2 powi ((52 - E) + (E - 52))"
    by (subst power_int_add) simp_all
  then have "(2::real) powi (52 - E) * u = 1"
    by (simp add: u_eq)
  moreover have "(2::real) powi (52 - E) = 2 ^ nat (52 - E)"
    using E by (simp add: power_int_def)
  ultimately have "2 ^ nat (52 - E) * u = 1"
    by simp
  then have Nu: "of_int N * u = (of_int m :: real)"
    by (simp add: N_def mult.assoc)
  have "y \<le> of_int m / u"
    unfolding y_def using assms(2) u by (intro divide_right_mono) simp_all
  also have "of_int m / u = of_int N"
    using u Nu by (simp add: field_simps)
  finally have "round_half_even y \<le> N"
    by (rule round_half_even_le)
  then have "of_int (round_half_even y) * u \<le> of_int N * u"
    using u by (intro mult_right_mono) simp_all
  with Nu fr show ?thesis
    by simp
qed

lemma float_round_0: "float_round 0 = 0"
  by (simp add: float_round_def)

lemma float_round_1: "float_round 1 = 1"
  by (simp add: float_round_def ulp_def binade_def compute_floorlog round_half_even_def)

lemma float_round_100: "float_round 100 = 100"
  by (simp add: float_round_def ulp_def binade_def compute_floorlog round_half_even_def)

text \<open>Two of three checks passed: what Python prints as 66.66666666666666.\<close>

lemma float_round_two_thirds: "float_round (2 / 3) = 6004799503160661 / 9007199254740992"
  by (simp add: float_round_def ulp_def binade_def compute_floorlog round_half_even_def)

lemma percentage_two_of_three:
  "py_mul (float_round (2 / 3)) 100 = 2345624805922133 / 35184372088832"
  unfolding float_round_two_thirds py_mul_def
  by (simp add: float_round_def ulp_def binade_def compute_floorlog round_half_even_def)

text \<open>The float differs from the exact percentage \<open>200 / 3\<close>, by less than \<open>1 / 2 ^ 45\<close>.\<close>

lemma percentage_two_of_three_inexact:
  "py_mul (float_round (2 / 3)) 100 \<noteq> 200 / 3"
  "\<bar>py_mul (float_round (2 / 3)) 100 - 200 / 3\<bar> < 1 / 2 ^ 45"
  unfolding percentage_two_of_three by simp_all

text \<open>
  Line 91 for \<open>p\<close> passed checks out of \<open>d\<close>: the quotient and the product are both
  rounded. The result stays between 0 and 100, and within \<open>1 / 2 ^ 45\<close> of the exact
  percentage.
\<close>

lemma float_quotient_bounds:
  fixes p d :: nat
  assumes "p \<le> d" "0 < d"
  shows "0 \<le> float_round (real p / real d)" "float_round (real p / real d) \<le> 1"
proof -
  have q: "0 \<le> real p / real d" "real p / real d \<le> 1"
    using assms by simp_all
  from q(1) show "0 \<le> float_round (real p / real d)"
    by (rule float_round_nonneg)
  show "float_round (real p / real d) \<le> 1"
  proof (cases "real p / real d = 0")
    case True
    show ?thesis unfolding True float_round_0 by simp
  next
    case False
    with q(1) have "0 < real p / real d" by simp
    from float_round_le_int [OF this, of 1] q(2) show ?thesis by simp
  qed
qed

lemma float_percentage_bounds:
  fixes p d :: nat
  assumes "p \<le> d" "0 < d"
  shows "0 \<le> py_mul (float_round (real p / real d)) 100"
    "py_mul (float_round (real p / real d)) 100 \<le> 100"
proof -
  define q where "q = float_round (real p / real d)"
  from float_quotient_bounds [OF assms] have q: "0 \<le> q" "q \<le> 1"
    by (simp_all add: q_def)
  then have z: "0 \<le> q * 100" "q * 100 \<le> 100"
    by simp_all
  from z(1) have "0 \<le> float_round (q * 100)"
    by (rule float_round_nonneg)
  then show "0 \<le> py_mul (float_round (real p / real d)) 100"
    by (simp add: py_mul_def q_def)
  have "float_round (q * 100) \<le> 100"
  proof (cases "q * 100 = 0")
    case True
    then show ?thesis by (simp add: float_round_0)
  next
    case False
    with z(1) have "0 < q * 100" by simp
    from float_round_le_int [OF this, of 100] z(2) show ?thesis by simp
  qed
  then show "py_mul (float_round (real p / real d)) 100 \<le> 100"
    by (simp add: py_mul_def q_def)
qed

lemma half_spacing_below_2: "(2::real) powi (int 0 - 52) / 2 = 1 / 2 ^ 53"
  by (simp add: power_int_minus)

lemma half_spacing_below_128: "(2::real) powi (int 6 - 52) / 2 = 1 / 2 ^ 47"
  by (simp add: power_int_minus)

lemma float_percentage_error:
  fixes p d :: nat
  assumes "p \<le> d" "0 < d"
  shows "\<bar>py_mul (float_round (real p / real d)) 100 - real p / real d * 100\<bar> \<le> 1 / 2 ^ 45"
proof -
  define q0 where "q0 = real p / real d"
  define q where "q = float_round q0"
  define a where "a = float_round (q * 100)"
  have q0: "0 \<le> q0" "q0 \<le> 1"
    using assms by (simp_all add: q0_def)
  from float_quotient_bounds [OF assms] have q: "0 \<le> q" "q \<le> 1"
    by (simp_all add: q_def q0_def)
  have e1: "\<bar>q - q0\<bar> \<le> 1 / 2 ^ 53"
  proof (cases "q0 = 0")
    case True
    show ?thesis unfolding q_def True float_round_0 by simp
  next
    case False
    with q0 have "0 < q0" "q0 < 2 ^ Suc 0" by simp_all
    from float_round_error [OF this] show ?thesis
      unfolding q_def half_spacing_below_2 .
  qed
  have e2: "\<bar>a - q * 100\<bar> \<le> 1 / 2 ^ 47"
  proof (cases "q * 100 = 0")
    case True
    show ?thesis unfolding a_def True float_round_0 by simp
  next
    case False
    with q have "0 < q * 100" "q * 100 < 2 ^ Suc 6" by simp_all
    from float_round_error [OF this] show ?thesis
      unfolding a_def half_spacing_below_128 .
  qed
  have "\<bar>q * 100 - q0 * 100\<bar> = \<bar>(q - q0) * 100\<bar>"
    by (simp only: left_diff_distrib)
  also have "\<dots> = \<bar>q - q0\<bar> * \<bar>100\<bar>"
    by (rule abs_mult)
  also have "\<dots> = \<bar>q - q0\<bar> * 100"
    by simp
  finally have scale: "\<bar>q * 100 - q0 * 100\<bar> = \<bar>q - q0\<bar> * 100" .
  have tri: "\<bar>x - z\<bar> \<le> \<bar>x - y\<bar> + \<bar>y - z\<bar>" for x y z :: real
    by linarith
  have "\<bar>a - q0 * 100\<bar> \<le> \<bar>a - q * 100\<bar> + \<bar>q * 100 - q0 * 100\<bar>"
    by (rule tri)
  also have "\<dots> = \<bar>a - q * 100\<bar> + \<bar>q - q0\<bar> * 100"
    by (simp only: scale)
  also have "\<dots> \<le> 1 / 2 ^ 47 + 1 / 2 ^ 53 * 100"
    using e1 e2 by (intro add_mono mult_right_mono) simp_all
  also have "\<dots> \<le> 1 / 2 ^ 45"
    by simp
  finally show ?thesis
    unfolding py_mul_def a_def q_def q0_def .
qed

section \<open>The analyzer: tallies and verdict\<close>

lemma with_status_Nil: "with_status s [] = []"
  by (simp add: with_status_def)

lemma with_status_Cons:
  "with_status s (r # rs) = (if r_status r = s then r # with_status s rs else with_status s rs)"
  by (simp add: with_status_def)

lemma with_status_append: "with_status s (xs @ ys) = with_status s xs @ with_status s ys"
  by (simp add: with_status_def)

lemmas with_status_simps = with_status_Nil with_status_Cons

text \<open>What the loop adds to each local variable, for any starting tally.\<close>

lemma tally_loop_critical_items:
  "t_critical_items (tally_loop rs t) = t_critical_items t @ map issue_of (with_status ''fail'' rs)"
  by (induction rs arbitrary: t) (simp_all add: tally_step_def with_status_simps)

lemma tally_loop_warning_items:
  "t_warning_items (tally_loop rs t) = t_warning_items t @ map issue_of (with_status ''warning'' rs)"
  by (induction rs arbitrary: t) (simp_all add: tally_step_def with_status_simps)

lemma tally_loop_error_items:
  "t_error_items (tally_loop rs t) = t_error_items t @ map error_of (with_status ''error'' rs)"
  by (induction rs arbitrary: t) (simp_all add: tally_step_def with_status_simps)

lemma tally_loop_critical_issues:
  "t_critical_issues (tally_loop rs t) = t_critical_issues t + length (with_status ''fail'' rs)"
  by (induction rs arbitrary: t) (simp_all add: tally_step_def with_status_simps)

lemma tally_loop_warnings:
  "t_warnings (tally_loop rs t) = t_warnings t + length (with_status ''warning'' rs)"
  by (induction rs arbitrary: t) (simp_all add: tally_step_def with_status_simps)

lemma tally_loop_passed:
  "t_passed (tally_loop rs t) = t_passed t + length (with_status ''pass'' rs)"
  by (induction rs arbitrary: t) (simp_all add: tally_step_def with_status_simps)

lemma tally_loop_errors:
  "t_errors (tally_loop rs t) = t_errors t + length (with_status ''error'' rs)"
  by (induction rs arbitrary: t) (simp_all add: tally_step_def with_status_simps)

lemmas tally_loop_eqs =
  tally_loop_critical_items tally_loop_warning_items tally_loop_error_items
  tally_loop_critical_issues tally_loop_warnings tally_loop_passed tally_loop_errors

text \<open>The guard of line 91 keeps the division away from a zero denominator.\<close>

lemma compliance_value:
  "compliance t =
     Inr (if t_critical_issues t + t_warnings t + t_passed t > 0
          then py_mul (float_round (real (t_passed t)
                 / real (t_critical_issues t + t_warnings t + t_passed t))) 100
          else 0)"
  by (simp add: compliance_def py_truediv_def and_then_def Let_def)

text \<open>The verdict, field by field, in terms of the input.\<close>

lemma analyze_value:
  "analyze rs =
     Inr \<lparr> summary = fst (classify (tally_loop rs tally0)),
           safety_level = snd (snd (classify (tally_loop rs tally0))),
           action_required = fst (snd (classify (tally_loop rs tally0))),
           critical_issues = length (with_status ''fail'' rs),
           warnings = length (with_status ''warning'' rs),
           passed = length (with_status ''pass'' rs),
           errors = length (with_status ''error'' rs),
           compliance_percentage =
             (if length (with_status ''fail'' rs) + length (with_status ''warning'' rs)
                   + length (with_status ''pass'' rs) > 0
              then py_mul (float_round (real (length (with_status ''pass'' rs))
                     / real (length (with_status ''fail'' rs)
                             + length (with_status ''warning'' rs)
                             + length (with_status ''pass'' rs)))) 100
              else 0),
           critical_items = map issue_of (with_status ''fail'' rs),
           warning_items = map issue_of (with_status ''warning'' rs),
           error_items = map error_of (with_status ''error'' rs),
           total_checks = length rs \<rparr>"
  by (simp add: analyze_def compliance_value and_then_def Let_def tally_loop_eqs tally0_def
      split: prod.splits)

lemma classify_level:
  "snd (snd (classify (tally_loop rs tally0))) =
     (if length (with_status ''fail'' rs) > 0 then ''critical''
      else if length (with_status ''warning'' rs) > 0 then ''warning''
      else if length (with_status ''error'' rs) > 0 then ''incomplete''
      else ''safe'')"
  by (simp add: classify_def tally_loop_eqs tally0_def)

lemma classify_summary:
  "fst (classify (tally_loop rs tally0)) =
     (if length (with_status ''fail'' rs) > 0 then ''UNSAFE - Critical issues detected''
      else if length (with_status ''warning'' rs) > 0 then ''CAUTION - Warnings detected''
      else if length (with_status ''error'' rs) > 0 then ''INCOMPLETE - Inspection errors''
      else ''SAFE - All checks passed'')"
  by (simp add: classify_def tally_loop_eqs tally0_def)

lemma with_status_nonempty: "(with_status s rs \<noteq> []) = (\<exists>r\<in>set rs. r_status r = s)"
  by (auto simp: with_status_def filter_empty_conv)

section \<open>Claims about the analyzer\<close>

text \<open>
  C1. For every sequence of check results, \<^verbatim>\<open>analyze\<close> returns a verdict whose safety
  level follows the first matching rule of a fixed precedence: \<open>critical\<close> when some
  result has status \<open>fail\<close> (with the summary "UNSAFE - Critical issues detected"),
  else \<open>warning\<close> when some result has status \<open>warning\<close>, else \<open>incomplete\<close> when
  some result has status \<open>error\<close>, else \<open>safe\<close>. In particular one \<open>fail\<close> among
  the results gives \<open>critical\<close>, whatever the other results are.
\<close>

theorem analyze_precedence:
  "\<exists>a. analyze rs = Inr a
     \<and> safety_level a =
         (if length (with_status ''fail'' rs) > 0 then ''critical''
          else if length (with_status ''warning'' rs) > 0 then ''warning''
          else if length (with_status ''error'' rs) > 0 then ''incomplete''
          else ''safe'')
     \<and> (length (with_status ''fail'' rs) > 0
          \<longrightarrow> summary a = ''UNSAFE - Critical issues detected'')
     \<and> ((\<exists>r\<in>set rs. r_status r = ''fail'') \<longrightarrow> safety_level a = ''critical'')"
proof -
  have "(\<exists>r\<in>set rs. r_status r = ''fail'') \<Longrightarrow> length (with_status ''fail'' rs) > 0"
    using with_status_nonempty [of "''fail''" rs] by simp
  then show ?thesis
    by (simp add: analyze_value classify_level classify_summary)
qed

theorem analyze_precedence_witness:
  "map_sum id safety_level
     (analyze [sample_result ''a'' (PyNum 30) ''pass'', sample_result ''b'' (PyNum 65) ''warning'',
               sample_result ''c'' PyNone ''error'', sample_result ''d'' (PyNum 90) ''fail''])
     = Inr ''critical''
   \<and> map_sum id summary
     (analyze [sample_result ''a'' (PyNum 30) ''pass'', sample_result ''b'' (PyNum 65) ''warning'',
               sample_result ''c'' PyNone ''error'', sample_result ''d'' (PyNum 90) ''fail''])
     = Inr ''UNSAFE - Critical issues detected''"
  using analyze_precedence
    [of "[sample_result ''a'' (PyNum 30) ''pass'', sample_result ''b'' (PyNum 65) ''warning'',
          sample_result ''c'' PyNone ''error'', sample_result ''d'' (PyNum 90) ''fail'']"]
  by (auto simp: with_status_def sample_result_def)

text \<open>
  C5. For every input, \<^verbatim>\<open>analyze\<close> returns (no division fault), and the compliance
  percentage is \<open>passed / (criticalIssues + warnings + passed) * 100\<close> as Python
  computes it on floats (the quotient rounded, then the product rounded) when that
  denominator is positive, and exactly 0 when it is 0. It is within \<open>1 / 2 ^ 45\<close> of
  the exact percentage, exactly 0 when nothing passed and exactly 100 when
  everything counted passed. The three counts are the numbers of results with status
  \<open>fail\<close>, \<open>warning\<close> and \<open>pass\<close>; a result with status \<open>error\<close> or
  \<open>skipped\<close>, put anywhere in the input, leaves the percentage as it was.
\<close>

theorem compliance_percentage_formula:
  "\<exists>a. analyze rs = Inr a
     \<and> compliance_percentage a =
         (if critical_issues a + warnings a + passed a > 0
          then py_mul (float_round
                 (real (passed a) / real (critical_issues a + warnings a + passed a))) 100
          else 0)
     \<and> \<bar>compliance_percentage a -
          (if critical_issues a + warnings a + passed a > 0
           then real (passed a) / real (critical_issues a + warnings a + passed a) * 100
           else 0)\<bar> \<le> 1 / 2 ^ 45
     \<and> (passed a = 0 \<longrightarrow> compliance_percentage a = 0)
     \<and> (passed a > 0 \<and> critical_issues a + warnings a = 0 \<longrightarrow> compliance_percentage a = 100)
     \<and> critical_issues a = length (with_status ''fail'' rs)
     \<and> warnings a = length (with_status ''warning'' rs)
     \<and> passed a = length (with_status ''pass'' rs)
     \<and> (\<forall>r xs ys. (r_status r = ''error'' \<or> r_status r = ''skipped'') \<and> rs = xs @ ys
          \<longrightarrow> (\<exists>a'. analyze (xs @ r # ys) = Inr a'
                 \<and> compliance_percentage a' = compliance_percentage a))"
proof -
  let ?p = "length (with_status ''pass'' rs)"
  let ?d = "length (with_status ''fail'' rs) + length (with_status ''warning'' rs) + ?p"
  have err: "\<bar>py_mul (float_round (real ?p / real ?d)) 100 - real ?p / real ?d * 100\<bar>
      \<le> 1 / 2 ^ 45" if "?d > 0"
    using that by (intro float_percentage_error) simp_all
  have none: "py_mul (float_round (real ?p / real ?d)) 100 = 0" if "?p = 0"
    using that by (simp add: py_mul_def float_round_0)
  have all: "py_mul (float_round (real ?p / real ?d)) 100 = 100" if "?p > 0" "?d = ?p"
    using that by (simp add: py_mul_def float_round_1 float_round_100)
  from err none all show ?thesis
    by (auto simp: analyze_value with_status_append with_status_Cons)
qed

theorem compliance_percentage_formula_witness:
  "map_sum id compliance_percentage
     (analyze [sample_result ''a'' (PyNum 30) ''pass'', sample_result ''b'' (PyNum 65) ''warning'',
               sample_result ''c'' PyNone ''error'', sample_result ''d'' (PyNum 30) ''pass''])
     = Inr (2345624805922133 / 35184372088832)
   \<and> map_sum id compliance_percentage
     (analyze [sample_result ''c'' PyNone ''error'', sample_result ''e'' PyNone ''skipped''])
     = Inr 0"
proof -
  let ?rs1 = "[sample_result ''a'' (PyNum 30) ''pass'', sample_result ''b'' (PyNum 65) ''warning'',
               sample_result ''c'' PyNone ''error'', sample_result ''d'' (PyNum 30) ''pass'']"
  let ?rs2 = "[sample_result ''c'' PyNone ''error'', sample_result ''e'' PyNone ''skipped'']"
  from compliance_percentage_formula [of ?rs1]
  obtain a1 where a1: "analyze ?rs1 = Inr a1"
    "compliance_percentage a1 =
       (if critical_issues a1 + warnings a1 + passed a1 > 0
        then py_mul (float_round
               (real (passed a1) / real (critical_issues a1 + warnings a1 + passed a1))) 100
        else 0)"
    "critical_issues a1 = length (with_status ''fail'' ?rs1)"
    "warnings a1 = length (with_status ''warning'' ?rs1)"
    "passed a1 = length (with_status ''pass'' ?rs1)"
    by (elim exE conjE) (rule that; assumption)
  from compliance_percentage_formula [of ?rs2]
  obtain a2 where a2: "analyze ?rs2 = Inr a2" "passed a2 = length (with_status ''pass'' ?rs2)"
    "passed a2 = 0 \<longrightarrow> compliance_percentage a2 = 0"
    by (elim exE conjE) (rule that; assumption)
  have "compliance_percentage a1 = 2345624805922133 / 35184372088832"
    unfolding a1(2-5)
    by (simp add: with_status_def sample_result_def percentage_two_of_three)
  moreover have "compliance_percentage a2 = 0"
    using a2(2,3) by (simp add: with_status_def sample_result_def)
  ultimately show ?thesis
    by (simp only: a1(1) a2(1)) simp
qed

text \<open>
  C9. For every input, \<^verbatim>\<open>critical_items\<close>, \<^verbatim>\<open>warning_items\<close> and \<^verbatim>\<open>error_items\<close>
  are the entries of the results with status \<open>fail\<close>, \<open>warning\<close> and \<open>error\<close>, in
  input order; the length of each list is the corresponding count; \<^verbatim>\<open>total_checks\<close>
  is the number of results; and a \<open>skipped\<close> result, put anywhere in the input,
  changes nothing of the verdict but \<^verbatim>\<open>total_checks\<close>, which grows by one.
\<close>

theorem analyze_item_lists:
  "\<exists>a. analyze rs = Inr a
     \<and> critical_items a = map issue_of (with_status ''fail'' rs)
     \<and> warning_items a = map issue_of (with_status ''warning'' rs)
     \<and> error_items a = map error_of (with_status ''error'' rs)
     \<and> length (critical_items a) = critical_issues a
     \<and> length (warning_items a) = warnings a
     \<and> length (error_items a) = errors a
     \<and> total_checks a = length rs
     \<and> (\<forall>r xs ys. r_status r = ''skipped'' \<and> rs = xs @ ys
          \<longrightarrow> analyze (xs @ r # ys) = Inr (a\<lparr>total_checks := Suc (total_checks a)\<rparr>))"
  by (auto simp: analyze_value with_status_append with_status_Cons classify_def
      tally_loop_eqs tally0_def)

theorem analyze_item_lists_witness:
  "map_sum id (\<lambda>a. (map ie_name (critical_items a), map ie_name (warning_items a),
                    map ee_name (error_items a), total_checks a))
     (analyze [sample_result ''a'' (PyNum 90) ''fail'', sample_result ''b'' (PyNum 65) ''warning'',
               sample_result ''c'' PyNone ''error'', sample_result ''d'' PyNone ''skipped'',
               sample_result ''e'' (PyNum 95) ''fail'', sample_result ''f'' (PyNum 30) ''pass''])
     = Inr ([''a'', ''e''], [''b''], [''c''], 6)"
  using analyze_item_lists
    [of "[sample_result ''a'' (PyNum 90) ''fail'', sample_result ''b'' (PyNum 65) ''warning'',
          sample_result ''c'' PyNone ''error'', sample_result ''d'' PyNone ''skipped'',
          sample_result ''e'' (PyNum 95) ''fail'', sample_result ''f'' (PyNum 30) ''pass'']"]
  by (auto simp: with_status_def sample_result_def issue_of_def error_of_def)

text \<open>
  C10. For every input, \<^verbatim>\<open>analyze\<close> returns a compliance percentage between 0 and
  100 inclusive: the passed count is at most the denominator, and a zero denominator
  gives 0. The bounds hold of the float that Python computes, both roundings
  included.
\<close>

theorem compliance_percentage_bounds:
  "\<exists>a. analyze rs = Inr a
     \<and> 0 \<le> compliance_percentage a \<and> compliance_percentage a \<le> 100
     \<and> passed a \<le> critical_issues a + warnings a + passed a"
proof -
  let ?p = "length (with_status ''pass'' rs)"
  let ?d = "length (with_status ''fail'' rs) + length (with_status ''warning'' rs) + ?p"
  have "0 \<le> py_mul (float_round (real ?p / real ?d)) 100" if "?d > 0"
    using that by (intro float_percentage_bounds) simp_all
  moreover have "py_mul (float_round (real ?p / real ?d)) 100 \<le> 100" if "?d > 0"
    using that by (intro float_percentage_bounds) simp_all
  ultimately show ?thesis
    by (simp add: analyze_value)
qed

theorem compliance_percentage_bounds_witness:
  "map_sum id (\<lambda>a. 0 \<le> compliance_percentage a \<and> compliance_percentage a \<le> 100)
     (analyze [sample_result ''a'' (PyNum 30) ''pass'', sample_result ''b'' (PyNum 30) ''pass''])
     = Inr True"
  using compliance_percentage_bounds
    [of "[sample_result ''a'' (PyNum 30) ''pass'', sample_result ''b'' (PyNum 30) ''pass'']"]
  by auto

section \<open>Claims about the executor\<close>

text \<open>
  C2. For every checklist whose items carry the required keys \<^verbatim>\<open>id\<close>, \<^verbatim>\<open>name\<close> and
  \<^verbatim>\<open>type\<close>, every hardware collaborator, clock and state of the world,
  \<^verbatim>\<open>run_inspection\<close> returns (no exception escapes) a list with exactly one result
  per item, in the order of the items: the result at each position carries the id,
  name and kind of the item at that position, and is what the loop body computed for
  that item.
\<close>

theorem run_inspection_one_result_per_item:
  assumes "\<forall>it\<in>set items. has_required_keys it"
  shows "\<exists>rs w'. run_inspection now hw items w = Inr (rs, w')
           \<and> length rs = length items
           \<and> map (\<lambda>r. Some (r_item_id r)) rs = map it_id items
           \<and> map (\<lambda>r. Some (r_name r)) rs = map it_name items
           \<and> map (\<lambda>r. Some (r_type r)) rs = map it_type items
           \<and> (\<forall>k<length items.
                 \<exists>wk wk'. check_item now hw (items ! k) wk = (Inr (rs ! k), wk'))"
proof -
  from run_inspection_required [OF assms, of now hw w]
  obtain rs w' where rs: "run_inspection now hw items w = Inr (rs, w')"
    "length rs = length items"
    "map (\<lambda>r. Some (r_item_id r)) rs = map it_id items"
    "map (\<lambda>r. Some (r_name r)) rs = map it_name items"
    "map (\<lambda>r. Some (r_type r)) rs = map it_type items"
    by blast
  from run_inspection_nth [OF rs(1)]
  have "\<forall>k<length items. \<exists>wk wk'. check_item now hw (items ! k) wk = (Inr (rs ! k), wk')"
    by blast
  with rs show ?thesis by blast
qed

theorem run_inspection_one_result_per_item_witness:
  "has_required_keys test_sensor \<and> has_required_keys test_visual
   \<and> has_required_keys test_mechanical
   \<and> map_sum id (\<lambda>p. (map r_item_id (fst p), map r_status (fst p)))
       (run_inspection mock_now mock_elevator [test_sensor, test_visual, test_mechanical] 0)
     = Inr ([''test_sensor'', ''test_visual'', ''test_mechanical''],
            [''pass'', ''pass'', ''pass''])"
  using run_inspection_one_result_per_item
    [of "[test_sensor, test_visual, test_mechanical]" mock_now mock_elevator 0]
  by (simp add: has_required_keys_def test_sensor_def test_visual_def test_mechanical_def
      test_thresholds_def mock_elevator_def mock_now_def run_inspection_def check_item_def
      try_body_def dispatch_def make_result_def evaluate_sensor_reading_def and_then_def
      in_and_lt_def in_and_gt_def get_or_def)

text \<open>
  C3. Let the items of a checklist carry the required keys, and let the hardware
  collaborator raise \<open>e\<close> when the item \<open>it\<close> is processed (reading its sensor or
  testing its component), after the items \<open>xs\<close> before it gave the results \<open>rs1\<close>.
  Then the run does not abort: it returns \<open>rs1\<close>, then a result for \<open>it\<close> with
  status \<open>error\<close>, no value and the error message \<^verbatim>\<open>str(e)\<close>, then the results that
  the items \<open>ys\<close> after it give when run on their own from the state the failure
  left, one per item. Every item is evaluated, and its result is the outcome of its
  own check, made in the state the items before it left: when its check returns a
  value and a status, the result has that status, never \<open>error\<close>, that value and no
  error message; only when its own check raises does it have status \<open>error\<close>, with
  the message of its own exception.
\<close>

theorem hardware_failure_isolated:
  assumes "\<forall>i\<in>set (xs @ it # ys). has_required_keys i"
    and "run_inspection now hw xs w = Inr (rs1, w1)"
    and "(it_type it = Some ''sensor'' \<and> it_sensor_id it = Some key
            \<and> get_sensor_reading hw key w1 = (Inl e, w2))
         \<or> (it_type it = Some ''mechanical'' \<and> it_component_id it = Some key
            \<and> test_mechanical_component hw key w1 = (Inl e, w2))"
  shows "\<exists>r rs2 w'.
           run_inspection now hw (xs @ it # ys) w = Inr (rs1 @ r # rs2, w')
           \<and> r_status r = ''error'' \<and> r_error r = Some (str_exn e) \<and> r_value r = PyNone
           \<and> Some (r_item_id r) = it_id it
           \<and> run_inspection now hw ys (snd (now w2)) = Inr (rs2, w')
           \<and> length rs2 = length ys
           \<and> (\<forall>q\<in>set (rs1 @ rs2). (r_status q = ''error'') = (r_error q \<noteq> None))
           \<and> (\<forall>k<length (xs @ it # ys).
                 \<exists>wk. run_inspection now hw (take k (xs @ it # ys)) w
                         = Inr (take k (rs1 @ r # rs2), wk)
                    \<and> own_outcome (fst (dispatch hw ((xs @ it # ys) ! k) wk))
                         ((rs1 @ r # rs2) ! k))"
proof -
  from assms(1) have "has_required_keys it" by simp
  then obtain iid nm ty where
    keys: "it_id it = Some iid" "it_name it = Some nm" "it_type it = Some ty"
    by (auto simp: has_required_keys_def)
  from assms(3) have "dispatch hw it w1 = (Inl e, w2)"
    by (auto intro: dispatch_sensor_raises dispatch_mechanical_raises)
  from check_item_raised [OF keys this, of now]
  obtain r where r: "check_item now hw it w1 = (Inr r, snd (now w2))"
    "r_status r = ''error''" "r_error r = Some (str_exn e)" "r_value r = PyNone"
    "r_item_id r = iid"
    by simp
  from assms(1) have "\<forall>i\<in>set ys. has_required_keys i" by simp
  from run_inspection_required [OF this, of now hw "snd (now w2)"]
  obtain rs2 w' where rs2: "run_inspection now hw ys (snd (now w2)) = Inr (rs2, w')"
    "length rs2 = length ys"
    by blast
  from assms(2) r(1) rs2(1)
  have run: "run_inspection now hw (xs @ it # ys) w = Inr (rs1 @ r # rs2, w')"
    by (simp add: run_inspection_append run_inspection_Cons)
  have iff: "\<forall>q\<in>set (rs1 @ rs2). (r_status q = ''error'') = (r_error q \<noteq> None)"
    using run_inspection_error_iff [OF assms(2)] run_inspection_error_iff [OF rs2(1)]
    by auto
  have own: "\<forall>k<length (xs @ it # ys).
      \<exists>wk. run_inspection now hw (take k (xs @ it # ys)) w = Inr (take k (rs1 @ r # rs2), wk)
        \<and> own_outcome (fst (dispatch hw ((xs @ it # ys) ! k) wk)) ((rs1 @ r # rs2) ! k)"
    using run_inspection_own_outcome [OF run] by blast
  from run r(2-5) keys(1) rs2 iff own show ?thesis
    by (intro exI [of _ r] exI [of _ rs2] exI [of _ w'] conjI) simp_all
qed

theorem hardware_failure_isolated_witness:
  "has_required_keys test_sensor \<and> has_required_keys test_visual
   \<and> has_required_keys test_mechanical
   \<and> run_inspection mock_now failing_elevator [] 0 = Inr ([], 0)
   \<and> it_type test_sensor = Some ''sensor'' \<and> it_sensor_id test_sensor = Some ''test_sensor_1''
   \<and> get_sensor_reading failing_elevator ''test_sensor_1'' 0 = (Inl (Failure ''Sensor error''), 1)
   \<and> map_sum id (\<lambda>p. map (\<lambda>r. (r_item_id r, r_status r, r_error r)) (fst p))
       (run_inspection mock_now failing_elevator [test_sensor, test_visual, test_mechanical] 0)
     = Inr [(''test_sensor'', ''error'', Some ''Sensor error''),
            (''test_visual'', ''pass'', None),
            (''test_mechanical'', ''pass'', None)]"
  using hardware_failure_isolated
    [of "[]" test_sensor "[test_visual, test_mechanical]" mock_now failing_elevator 0 "[]" 0
        "''test_sensor_1''" "Failure ''Sensor error''" 1]
  by (simp add: has_required_keys_def test_sensor_def test_visual_def test_mechanical_def
      test_thresholds_def failing_elevator_def mock_now_def run_inspection_def check_item_def
      try_body_def dispatch_def make_result_def except_body_def get_or_def)

text \<open>
  C4. For every numeric value and every thresholds dict, \<^verbatim>\<open>_evaluate_sensor_reading\<close>
  returns the status of the first violated bound in the order minCritical,
  maxCritical, minWarning, maxWarning: \<open>fail\<close> for a critical bound, \<open>warning\<close>
  for a warning bound, \<open>pass\<close> when no bound that is set is violated. So a value that
  violates a critical bound gives \<open>fail\<close>, whatever the warning bounds are. The
  status is a function of the value and the thresholds alone.
\<close>

theorem evaluate_sensor_reading_order:
  "evaluate_sensor_reading (PyNum x) th = Inr (spec_threshold_status x th)
   \<and> (violates_min (min_critical th) x \<or> violates_max (max_critical th) x
        \<longrightarrow> evaluate_sensor_reading (PyNum x) th = Inr ''fail'')
   \<and> (\<not> violates_min (min_critical th) x \<and> \<not> violates_max (max_critical th) x
        \<and> (violates_min (min_warning th) x \<or> violates_max (max_warning th) x)
        \<longrightarrow> evaluate_sensor_reading (PyNum x) th = Inr ''warning'')"
  by (simp add: evaluate_sensor_reading_num spec_threshold_status_def)

theorem evaluate_sensor_reading_order_witness:
  "violates_min (Some 20) 10 \<and> violates_min (Some 40) 10
   \<and> evaluate_sensor_reading (PyNum 10)
        \<lparr> min_critical = Some 20, max_critical = Some 85,
          min_warning = Some 40, max_warning = Some 70 \<rparr> = Inr ''fail''
   \<and> \<not> violates_min None 65 \<and> \<not> violates_max (Some 75) 65 \<and> violates_max (Some 60) 65
   \<and> evaluate_sensor_reading (PyNum 65)
        \<lparr> min_critical = None, max_critical = Some 75,
          min_warning = None, max_warning = Some 60 \<rparr> = Inr ''warning''"
  using evaluate_sensor_reading_order
    [of 10 "\<lparr> min_critical = Some 20, max_critical = Some 85,
              min_warning = Some 40, max_warning = Some 70 \<rparr>"]
    evaluate_sensor_reading_order
    [of 65 "\<lparr> min_critical = None, max_critical = Some 75,
              min_warning = None, max_warning = Some 60 \<rparr>"]
  by (simp add: violates_min_def violates_max_def spec_threshold_status_def)

text \<open>
  C7. With the empty thresholds dict, \<^verbatim>\<open>_evaluate_sensor_reading\<close> returns \<open>pass\<close>
  for every value, 100 among them; it does so even for a value that cannot be
  compared with a number, so no comparison is made. A missing key is inert: for a
  numeric value, thresholds without a key give the same status as the same
  thresholds with that key set to a bound the value does not violate.
\<close>

theorem evaluate_sensor_reading_missing_keys:
  "evaluate_sensor_reading v no_thresholds = Inr ''pass''
   \<and> evaluate_sensor_reading (PyNum 100) no_thresholds = Inr ''pass''
   \<and> (min_critical th = None \<and> b \<le> x \<longrightarrow>
        evaluate_sensor_reading (PyNum x) (th\<lparr>min_critical := Some b\<rparr>)
          = evaluate_sensor_reading (PyNum x) th)
   \<and> (max_critical th = None \<and> x \<le> b \<longrightarrow>
        evaluate_sensor_reading (PyNum x) (th\<lparr>max_critical := Some b\<rparr>)
          = evaluate_sensor_reading (PyNum x) th)
   \<and> (min_warning th = None \<and> b \<le> x \<longrightarrow>
        evaluate_sensor_reading (PyNum x) (th\<lparr>min_warning := Some b\<rparr>)
          = evaluate_sensor_reading (PyNum x) th)
   \<and> (max_warning th = None \<and> x \<le> b \<longrightarrow>
        evaluate_sensor_reading (PyNum x) (th\<lparr>max_warning := Some b\<rparr>)
          = evaluate_sensor_reading (PyNum x) th)"
proof -
  have "evaluate_sensor_reading v no_thresholds = Inr ''pass''" for v
    by (simp add: evaluate_sensor_reading_def no_thresholds_def and_then_def
        in_and_lt_def in_and_gt_def)
  then show ?thesis
    by (simp add: evaluate_sensor_reading_num spec_threshold_status_def
        violates_min_def violates_max_def)
qed

theorem evaluate_sensor_reading_missing_keys_witness:
  "evaluate_sensor_reading PyNone no_thresholds = Inr ''pass''
   \<and> evaluate_sensor_reading (PyNum 100) no_thresholds = Inr ''pass''
   \<and> min_critical test_thresholds = None \<and> (10::real) \<le> 30
   \<and> evaluate_sensor_reading (PyNum 30) (test_thresholds\<lparr>min_critical := Some 10\<rparr>)
        = Inr ''pass''
   \<and> evaluate_sensor_reading (PyNum 30) test_thresholds = Inr ''pass''"
  using evaluate_sensor_reading_missing_keys [of PyNone test_thresholds 10 30]
  by (simp add: test_thresholds_def evaluate_sensor_reading_def and_then_def in_and_lt_def in_and_gt_def)

text \<open>
  C8. In a run over items with the required keys, the result of every item whose
  kind is not \<open>sensor\<close>, \<open>visual\<close> or \<open>mechanical\<close> has status \<open>skipped\<close>,
  the value \<^verbatim>\<open>None\<close> and no error message.
\<close>

theorem unknown_kind_skipped:
  assumes "\<forall>it\<in>set items. has_required_keys it"
    and "k < length items"
    and "it_type (items ! k) = Some ty"
    and "ty \<noteq> ''sensor''" "ty \<noteq> ''visual''" "ty \<noteq> ''mechanical''"
  shows "\<exists>rs w'. run_inspection now hw items w = Inr (rs, w')
           \<and> length rs = length items
           \<and> r_status (rs ! k) = ''skipped'' \<and> r_value (rs ! k) = PyNone
           \<and> r_error (rs ! k) = None"
proof -
  from run_inspection_required [OF assms(1), of now hw w]
  obtain rs w' where rs: "run_inspection now hw items w = Inr (rs, w')"
    "length rs = length items"
    by blast
  from run_inspection_nth [OF rs(1) assms(2)]
  obtain wk wk' where body: "check_item now hw (items ! k) wk = (Inr (rs ! k), wk')"
    by blast
  from assms(1,2) have "has_required_keys (items ! k)" by simp
  then obtain iid nm where keys: "it_id (items ! k) = Some iid" "it_name (items ! k) = Some nm"
    by (auto simp: has_required_keys_def)
  from dispatch_unknown [OF assms(3-6)]
  have "dispatch hw (items ! k) wk = (Inr (PyNone, ''skipped''), wk)" .
  from check_item_returned [OF keys assms(3) this, of now] body
  have "r_status (rs ! k) = ''skipped'' \<and> r_value (rs ! k) = PyNone \<and> r_error (rs ! k) = None"
    by auto
  with rs show ?thesis by blast
qed

theorem unknown_kind_skipped_witness:
  "has_required_keys test_visual \<and> has_required_keys thermal_scan
   \<and> (1::nat) < length [test_visual, thermal_scan]
   \<and> it_type ([test_visual, thermal_scan] ! 1) = Some ''thermal''
   \<and> ''thermal'' \<noteq> ''sensor'' \<and> ''thermal'' \<noteq> ''visual'' \<and> ''thermal'' \<noteq> ''mechanical''
   \<and> map_sum id (\<lambda>p. map (\<lambda>r. (r_item_id r, r_status r, r_value r, r_error r)) (fst p))
       (run_inspection mock_now mock_elevator [test_visual, thermal_scan] 0)
     = Inr [(''test_visual'', ''pass'', PyStr ''SIMULATED VISUAL INSPECTION'', None),
            (''thermal_scan'', ''skipped'', PyNone, None)]"
  using unknown_kind_skipped
    [of "[test_visual, thermal_scan]" 1 "''thermal''" mock_now mock_elevator 0]
  by (simp add: has_required_keys_def test_visual_def thermal_scan_def mock_elevator_def
      mock_now_def run_inspection_def check_item_def try_body_def dispatch_def make_result_def
      get_or_def)

text \<open>
  C6. The claim is that a sensor item without the \<^verbatim>\<open>thresholds\<close> field is not
  treated as a failure. The code does otherwise: on the item \<^verbatim>\<open>door_operation\<close> of
  the default configuration, whose sensor reads \<^verbatim>\<open>True\<close>, the run gives one result
  with status \<open>error\<close>, the value \<^verbatim>\<open>None\<close> and the error message
  \<^verbatim>\<open>'thresholds'\<close>, the text of the \<^verbatim>\<open>KeyError\<close>.
\<close>

theorem door_operation_reported_as_error:
  "map_sum id (\<lambda>p. map (\<lambda>r. (r_item_id r, r_status r, r_value r, r_error r)) (fst p))
     (run_inspection mock_now door_elevator [door_operation] 0)
   = Inr [(''door_operation'', ''error'', PyNone,
           Some (CHR 0x27 # ''thresholds'' @ [CHR 0x27]))]"
  by (simp add: door_operation_def door_elevator_def mock_now_def run_inspection_def
      check_item_def try_body_def dispatch_def except_body_def get_or_def)

end
